theory Spec2Isabelle
  imports Main "HOL-Library.Word"
begin

section \<open>Data model\<close>

subsection \<open>Strings of the host language\<close>

text \<open>
  A string of the resolvers is a sequence of 16-bit code units. \<open>js\<close> writes a literal
  of the source as such a string; messages and codes of errors, which are fixed texts,
  stay literals.
\<close>

type_synonym code_unit = "16 word"

type_synonym jsstring = "code_unit list"

definition js :: "string \<Rightarrow> jsstring" where
  "js s = map of_char s"

subsection \<open>The users table (src/db/schema.ts)\<close>

text \<open>
  \<^verbatim>\<open>userRoleEnum = pgEnum("user_role", ["customer", "contractor", "admin"])\<close>.
  The constructors stand for the three lower-case labels.
\<close>

datatype user_role = Customer | Contractor | Admin

fun role_label :: "user_role \<Rightarrow> string" where
  "role_label Customer = ''customer''"
| "role_label Contractor = ''contractor''"
| "role_label Admin = ''admin''"

text \<open>Reading a label into the enum; a string that is no label is rejected by the column.\<close>

definition userRoleEnum :: "jsstring \<Rightarrow> user_role option" where
  "userRoleEnum s =
     (if s = js ''customer'' then Some Customer
      else if s = js ''contractor'' then Some Contractor
      else if s = js ''admin'' then Some Admin
      else None)"

text \<open>Timestamps are milliseconds since the epoch.\<close>

type_synonym timestamp = int

text \<open>
  A row of \<^verbatim>\<open>usersTable\<close>. The columns other than \<^verbatim>\<open>password\<close> form the
  parent record, which is also the shape of the objects that the resolvers return after
  \<^verbatim>\<open>const { password, ...user } = row\<close>. Nullable columns are options. The column
  \<^verbatim>\<open>id\<close> is called \<open>row_id\<close> here.
\<close>

record UserData =
  row_id :: int
  email :: jsstring
  name :: jsstring
  role :: user_role
  phone :: "jsstring option"
  isSuspend :: bool
  refreshTokens :: "jsstring list option"
  passwordResetOTP :: "jsstring option"
  otpExpiry :: "timestamp option"
  createdAt :: timestamp
  updatedAt :: timestamp

record User = UserData +
  password :: jsstring

text \<open>
  The database: the rows of the table, and the counter behind
  \<^verbatim>\<open>generatedAlwaysAsIdentity()\<close>.
\<close>

record database =
  usersTable :: "User list"
  id_sequence :: int

subsection \<open>Errors\<close>

text \<open>
  \<^verbatim>\<open>new GraphQLError(message, { extensions: { code } })\<close> carries a message and an
  optional code; \<^verbatim>\<open>new Error(message)\<close> only a message. \<open>DatabaseError\<close> is a
  statement that the database rejects.
\<close>

datatype error =
    GraphQLError string "string option"
  | Error string
  | DatabaseError string

definition Unauthenticated :: error where
  "Unauthenticated =
     GraphQLError ''Unauthorized - Authentication required'' (Some ''UNAUTHENTICATED'')"

definition Forbidden :: error where
  "Forbidden =
     GraphQLError ''Forbidden - You can only access your own resources'' (Some ''FORBIDDEN'')"

definition InvalidCredentials :: error where
  "InvalidCredentials = GraphQLError ''Invalid email or password'' (Some ''BAD_USER_INPUT'')"

definition AccountSuspended :: error where
  "AccountSuspended = GraphQLError ''Account is suspended'' (Some ''FORBIDDEN'')"

subsection \<open>The request context (src/graphql/context.ts)\<close>

text \<open>The \<^verbatim>\<open>user\<close> object of the context, which is also the payload of a token.\<close>

record identity =
  userId :: jsstring
  email :: jsstring
  role :: user_role

record GraphQLContext =
  user :: "identity option"

section \<open>Guards (src/graphql/guards.ts)\<close>

definition requireAuth :: "GraphQLContext \<Rightarrow> error + identity" where
  "requireAuth context =
     (case user context of
        None \<Rightarrow> Inl Unauthenticated
      | Some u \<Rightarrow> Inr u)"

definition requireRole :: "GraphQLContext \<Rightarrow> user_role \<Rightarrow> error + identity" where
  "requireRole context r =
     (case requireAuth context of
        Inl e \<Rightarrow> Inl e
      | Inr u \<Rightarrow>
          if identity.role u \<noteq> r
          then Inl (GraphQLError (''Forbidden - '' @ role_label r @ '' access required'')
                      (Some ''FORBIDDEN''))
          else Inr u)"

definition requireAnyRole :: "GraphQLContext \<Rightarrow> user_role list \<Rightarrow> error + identity" where
  "requireAnyRole context roles =
     (case requireAuth context of
        Inl e \<Rightarrow> Inl e
      | Inr u \<Rightarrow>
          if \<not> List.member roles (identity.role u)
          then Inl (GraphQLError ''Forbidden - Insufficient permissions'' (Some ''FORBIDDEN''))
          else Inr u)"

definition requireOwnership :: "GraphQLContext \<Rightarrow> jsstring \<Rightarrow> error + identity" where
  "requireOwnership context resourceUserId =
     (case requireAuth context of
        Inl e \<Rightarrow> Inl e
      | Inr u \<Rightarrow>
          if userId u \<noteq> resourceUserId \<and> identity.role u \<noteq> Admin
          then Inl Forbidden
          else Inr u)"

section \<open>String and number functions of the host language\<close>

text \<open>\<^verbatim>\<open>s.startsWith(p)\<close> and \<^verbatim>\<open>s.substring(n)\<close>, both on code units.\<close>

definition startsWith :: "jsstring \<Rightarrow> jsstring \<Rightarrow> bool" where
  "startsWith s p = (take (length p) s = p)"

definition substring :: "jsstring \<Rightarrow> nat \<Rightarrow> jsstring" where
  "substring s n = drop n s"

text \<open>
  \<^verbatim>\<open>s.toLowerCase()\<close> on the letters A to Z. The resolvers apply it to the names of
  the GraphQL enum \<^verbatim>\<open>UserRole\<close> only, which consist of these letters.
\<close>

definition lower_unit :: "code_unit \<Rightarrow> code_unit" where
  "lower_unit c = (if 65 \<le> c \<and> c \<le> 90 then c + 32 else c)"

definition toLowerCase :: "jsstring \<Rightarrow> jsstring" where
  "toLowerCase s = map lower_unit s"

text \<open>\<^verbatim>\<open>n.toString()\<close> for an integer: decimal digits, with a minus sign below zero.\<close>

fun digits_of_nat :: "nat \<Rightarrow> jsstring" where
  "digits_of_nat n =
     (if n < 10 then [of_nat (48 + n)]
      else digits_of_nat (n div 10) @ [of_nat (48 + n mod 10)])"

definition toString :: "int \<Rightarrow> jsstring" where
  "toString i = (if i < 0 then 45 # digits_of_nat (nat (- i)) else digits_of_nat (nat i))"

text \<open>
  \<^verbatim>\<open>Number.parseInt(s, 10)\<close>. Leading white space and line terminators are skipped:
  the code units of the ECMAScript productions WhiteSpace and LineTerminator, that is
  TAB, LF, VT, FF, CR, SP, NBSP (U+00A0), U+1680, U+2000 to U+200A, U+2028, U+2029,
  U+202F, U+205F, U+3000 and the byte order mark U+FEFF. Then one sign is read, then the
  longest run of the digits 0 to 9; with no digit the result is NaN, here \<open>None\<close>. The
  value is exact in the range of the 32-bit \<^verbatim>\<open>id\<close> column, which is the only range
  where the database accepts it.
\<close>

definition isWhiteSpace :: "code_unit \<Rightarrow> bool" where
  "isWhiteSpace c =
     ((9 \<le> c \<and> c \<le> 13) \<or> c = 32 \<or> c = 160 \<or> c = 5760 \<or>
      (8192 \<le> c \<and> c \<le> 8202) \<or> c = 8232 \<or> c = 8233 \<or> c = 8239 \<or>
      c = 8287 \<or> c = 12288 \<or> c = 65279)"

definition isDigit :: "code_unit \<Rightarrow> bool" where
  "isDigit c = (48 \<le> c \<and> c \<le> 57)"

definition digits_value :: "jsstring \<Rightarrow> nat" where
  "digits_value ds = foldl (\<lambda>acc c. 10 * acc + (unat c - 48)) 0 ds"

definition parseInt :: "jsstring \<Rightarrow> int option" where
  "parseInt s =
     (let t = dropWhile isWhiteSpace s;
          negative = (t \<noteq> [] \<and> hd t = 45);
          r = (if t \<noteq> [] \<and> (hd t = 45 \<or> hd t = 43) then tl t else t);
          ds = takeWhile isDigit r
      in if ds = [] then None
         else Some (if negative then - int (digits_value ds) else int (digits_value ds)))"

section \<open>The token library (\<^verbatim>\<open>@/lib/jwt\<close>, imported by the resolvers)\<close>

text \<open>
  The resolvers and the context call five functions of the token library. They are
  parameters of the model. \<open>verifyAccessToken\<close> throws on a token it rejects, so it
  returns a sum; \<open>signRefreshToken\<close> returns the token and its identifier \<open>jti\<close>.
\<close>

record jwt =
  hashPassword :: "jsstring \<Rightarrow> jsstring"
  comparePassword :: "jsstring \<Rightarrow> jsstring \<Rightarrow> bool"
  signAccessToken :: "identity \<Rightarrow> jsstring"
  signRefreshToken :: "identity \<Rightarrow> jsstring \<times> jsstring"
  verifyAccessToken :: "jsstring \<Rightarrow> error + identity"

section \<open>Building the context (src/graphql/context.ts)\<close>

text \<open>
  \<open>authHeader\<close> is \<^verbatim>\<open>req.headers.authorization\<close>, absent or a string. The result is a
  sum so that an exception leaving \<open>createContext\<close> would be a value \<open>Inl\<close>; the
  \<^verbatim>\<open>catch\<close> block turns the exception of \<open>verifyAccessToken\<close> into the empty context.
\<close>

definition createContext :: "jwt \<Rightarrow> jsstring option \<Rightarrow> error + GraphQLContext" where
  "createContext lib authHeader =
     (case authHeader of
        None \<Rightarrow> Inr \<lparr>user = None\<rparr>
      | Some h \<Rightarrow>
          if startsWith h (js ''Bearer '') then
            (let token = substring h 7 in
             case verifyAccessToken lib token of
               Inr decoded \<Rightarrow>
                 Inr \<lparr>user = Some \<lparr>userId = userId decoded,
                                     email = identity.email decoded,
                                     role = identity.role decoded\<rparr>\<rparr>
             | Inl err \<Rightarrow> Inr \<lparr>user = None\<rparr>)
          else Inr \<lparr>user = None\<rparr>)"

section \<open>Statements on the users table\<close>

text \<open>
  The resolvers reach the table through \<^verbatim>\<open>db.select()\<close>, \<^verbatim>\<open>db.insert()\<close>,
  \<^verbatim>\<open>db.update()\<close> and \<^verbatim>\<open>db.delete()\<close>. A statement that the database rejects
  is \<open>Inl\<close> of an error and leaves the table as it was. The constraints are those of
  src/db/schema.ts: the \<^verbatim>\<open>varchar\<close> columns, the labels of the role enum, the 32-bit
  range of \<^verbatim>\<open>integer()\<close>, the primary key, the unique email and \<^verbatim>\<open>notNull()\<close>.
\<close>

text \<open>
  What the database does with a string that a statement assigns to a
  \<^verbatim>\<open>varchar({ length: n })\<close> column is decided by the database server, not by the
  repository: it refuses the string (too long, or not a text it can store) or stores a
  text, which need not be the string itself (it cuts trailing spaces beyond the length).
  The model takes this decision as a parameter: \<open>assign n s\<close> is the refusal or the
  stored text.
\<close>

type_synonym varchar_assign = "nat \<Rightarrow> jsstring \<Rightarrow> error + jsstring"

definition assign_opt :: "varchar_assign \<Rightarrow> nat \<Rightarrow> jsstring option \<Rightarrow> error + jsstring option" where
  "assign_opt assign n s =
     (case s of
        None \<Rightarrow> Inr None
      | Some v \<Rightarrow> (case assign n v of Inl e \<Rightarrow> Inl e | Inr v' \<Rightarrow> Inr (Some v')))"

definition int4 :: "int \<Rightarrow> bool" where
  "int4 i = (- 2147483648 \<le> i \<and> i \<le> 2147483647)"

text \<open>
  The number compared with the \<^verbatim>\<open>id\<close> column in \<^verbatim>\<open>eq(usersTable.id, userId)\<close>:
  NaN (\<open>None\<close>) and a value outside the column's range are no integer for the database.
\<close>

definition id_param :: "int option \<Rightarrow> error + int" where
  "id_param n =
     (case n of
        None \<Rightarrow> Inl (DatabaseError ''invalid input syntax for type integer'')
      | Some i \<Rightarrow> if int4 i then Inr i else Inl (DatabaseError ''integer out of range''))"

definition select_all :: "database \<Rightarrow> User list" where
  "select_all db = usersTable db"

definition select_where_email :: "database \<Rightarrow> jsstring \<Rightarrow> User list" where
  "select_where_email db e = filter (\<lambda>u. UserData.email u = e) (usersTable db)"

definition select_where_id :: "database \<Rightarrow> int option \<Rightarrow> error + User list" where
  "select_where_id db n =
     (case id_param n of
        Inl e \<Rightarrow> Inl e
      | Inr i \<Rightarrow> Inr (filter (\<lambda>u. row_id u = i) (usersTable db)))"

text \<open>
  \<^verbatim>\<open>db.insert(usersTable).values({ email, password, name, role, phone })\<close>. The four
  strings are assigned to their \<^verbatim>\<open>varchar\<close> columns, the role must be a label of the
  enum. The other columns take their defaults: the next identity value, which must be in
  the range of the column and not an id in use, \<^verbatim>\<open>isSuspend = false\<close>,
  \<^verbatim>\<open>refreshTokens = []\<close>, no reset code, and the current time in both timestamps. The
  stored email must be new.
\<close>

definition insert_values ::
  "varchar_assign \<Rightarrow> database \<Rightarrow> timestamp \<Rightarrow> jsstring \<Rightarrow> jsstring \<Rightarrow> jsstring \<Rightarrow> jsstring
     \<Rightarrow> jsstring option \<Rightarrow> error + database" where
  "insert_values assign db now e pw n r ph =
     (case userRoleEnum r of
        None \<Rightarrow> Inl (DatabaseError ''invalid input value for enum user_role'')
      | Some r' \<Rightarrow>
     (case assign 255 e of Inl err \<Rightarrow> Inl err | Inr e' \<Rightarrow>
     (case assign 255 pw of Inl err \<Rightarrow> Inl err | Inr pw' \<Rightarrow>
     (case assign 255 n of Inl err \<Rightarrow> Inl err | Inr n' \<Rightarrow>
     (case assign_opt assign 50 ph of Inl err \<Rightarrow> Inl err | Inr ph' \<Rightarrow>
        if \<not> int4 (id_sequence db)
        then Inl (DatabaseError ''integer out of range'')
        else if id_sequence db \<in> set (map row_id (usersTable db))
        then Inl (DatabaseError ''duplicate key value violates unique constraint'')
        else if e' \<in> set (map UserData.email (usersTable db))
        then Inl (DatabaseError ''duplicate key value violates unique constraint'')
        else Inr (db\<lparr>usersTable := usersTable db @
                      [\<lparr>row_id = id_sequence db, UserData.email = e', UserData.name = n',
                        UserData.role = r', phone = ph', isSuspend = False,
                        refreshTokens = Some [], passwordResetOTP = None,
                        otpExpiry = None, createdAt = now, updatedAt = now,
                        password = pw'\<rparr>],
                    id_sequence := id_sequence db + 1\<rparr>))))))"

text \<open>
  \<^verbatim>\<open>db.update(usersTable).set(values).where(eq(usersTable.id, n))\<close>. The column
  \<^verbatim>\<open>updatedAt\<close> is declared with \<^verbatim>\<open>$onUpdate(() => new Date())\<close>: every update
  writes the current time there unless \<open>values\<close> gives the column itself, so the values
  are applied after the hook.
\<close>

definition onUpdate :: "timestamp \<Rightarrow> User \<Rightarrow> User" where
  "onUpdate now u = u\<lparr>updatedAt := now\<rparr>"

definition update_where_id ::
  "database \<Rightarrow> timestamp \<Rightarrow> (User \<Rightarrow> User) \<Rightarrow> int option \<Rightarrow> error + database" where
  "update_where_id db now set_values n =
     (case id_param n of
        Inl e \<Rightarrow> Inl e
      | Inr i \<Rightarrow>
          Inr (db\<lparr>usersTable :=
                 map (\<lambda>u. if row_id u = i then set_values (onUpdate now u) else u)
                   (usersTable db)\<rparr>))"


section \<open>Resolvers (src/graphql/resolvers/userMutations.ts)\<close>

text \<open>
  The arguments arrive through the GraphQL schema (\<^verbatim>\<open>typeDefs\<close>). The role of
  \<^verbatim>\<open>RegisterInput\<close> is a value of \<^verbatim>\<open>enum UserRole { CUSTOMER CONTRACTOR ADMIN }\<close>,
  which reaches the resolver as the name of the value. A field declared \<^verbatim>\<open>String\<close>
  without \<^verbatim>\<open>!\<close> may be left out, be \<^verbatim>\<open>null\<close>, or be a string. For the phone of
  \<^verbatim>\<open>RegisterInput\<close> the first two give the same row (no phone), so it is an option.
\<close>

datatype UserRole = CUSTOMER | CONTRACTOR | ADMIN

fun UserRole_name :: "UserRole \<Rightarrow> jsstring" where
  "UserRole_name CUSTOMER = js ''CUSTOMER''"
| "UserRole_name CONTRACTOR = js ''CONTRACTOR''"
| "UserRole_name ADMIN = js ''ADMIN''"

datatype 'a input_field = Omitted | Null | Given 'a

record RegisterInput =
  email :: jsstring
  password :: jsstring
  name :: jsstring
  role :: UserRole
  phone :: "jsstring option"

record LoginInput =
  email :: jsstring
  password :: jsstring

record UpdateUserInput =
  name :: "jsstring input_field"
  phone :: "jsstring input_field"

record SuccessResponse =
  success :: bool
  message :: string

record AuthPayload =
  accessToken :: jsstring
  refreshToken :: jsstring
  user :: UserData

text \<open>\<^verbatim>\<open>const { password, ...user } = row\<close>: the row without its password.\<close>

definition omit_password :: "User \<Rightarrow> UserData" where
  "omit_password u =
     \<lparr>row_id = row_id u, UserData.email = UserData.email u, UserData.name = UserData.name u,
      UserData.role = UserData.role u, UserData.phone = UserData.phone u,
      isSuspend = isSuspend u, refreshTokens = refreshTokens u,
      passwordResetOTP = passwordResetOTP u, otpExpiry = otpExpiry u,
      createdAt = createdAt u, updatedAt = updatedAt u\<rparr>"

text \<open>
  A mutation returns its result and the database after it. Every exception of these
  resolvers is thrown before a statement has changed a row, so \<open>Inl\<close> carries no database.
  \<open>now\<close> is the clock read by \<^verbatim>\<open>new Date()\<close> and \<^verbatim>\<open>defaultNow()\<close>.
\<close>

definition register ::
  "varchar_assign \<Rightarrow> jwt \<Rightarrow> timestamp \<Rightarrow> GraphQLContext \<Rightarrow> RegisterInput \<Rightarrow> database
     \<Rightarrow> error + (SuccessResponse \<times> database)" where
  "register assign lib now context input db =
     (let existingUsers = select_where_email db (RegisterInput.email input) in
      if length existingUsers > 0
      then Inl (GraphQLError ''User with this email already exists'' (Some ''BAD_USER_INPUT''))
      else
        (let hashedPassword = hashPassword lib (RegisterInput.password input) in
         case insert_values assign db now (RegisterInput.email input) hashedPassword
                (RegisterInput.name input)
                (toLowerCase (UserRole_name (RegisterInput.role input)))
                (RegisterInput.phone input) of
           Inl e \<Rightarrow> Inl e
         | Inr db' \<Rightarrow>
             Inr (\<lparr>success = True, message = ''User registered successfully''\<rparr>, db')))"

definition login ::
  "jwt \<Rightarrow> timestamp \<Rightarrow> GraphQLContext \<Rightarrow> LoginInput \<Rightarrow> database
     \<Rightarrow> error + (AuthPayload \<times> database)" where
  "login lib now context input db =
     (let users = select_where_email db (LoginInput.email input) in
      if length users = 0 then Inl InvalidCredentials
      else
        (let u = hd users in
         if isSuspend u then Inl AccountSuspended
         else if \<not> comparePassword lib (LoginInput.password input) (User.password u)
         then Inl InvalidCredentials
         else
           (let payload = \<lparr>userId = toString (row_id u), identity.email = UserData.email u,
                           identity.role = UserData.role u\<rparr>;
                access = signAccessToken lib payload;
                (refresh, jti) = signRefreshToken lib payload;
                currentTokens = (case refreshTokens u of None \<Rightarrow> [] | Some ts \<Rightarrow> ts)
            in case update_where_id db now
                      (\<lambda>r. r\<lparr>refreshTokens := Some (currentTokens @ [jti])\<rparr>)
                      (Some (row_id u)) of
                 Inl e \<Rightarrow> Inl e
               | Inr db' \<Rightarrow>
                   Inr (\<lparr>accessToken = access, refreshToken = refresh,
                         user = omit_password u\<rparr>, db'))))"

text \<open>
  \<^verbatim>\<open>.set({ ...args.input, updatedAt: new Date() })\<close>: a field that the input leaves out
  is not written, \<^verbatim>\<open>null\<close> is written as the SQL null, a string is assigned to its
  \<^verbatim>\<open>varchar\<close> column. \<open>assign_field\<close> gives the value as the column takes it.
\<close>

definition assign_field ::
  "varchar_assign \<Rightarrow> nat \<Rightarrow> jsstring input_field \<Rightarrow> error + jsstring input_field" where
  "assign_field assign n f =
     (case f of
        Omitted \<Rightarrow> Inr Omitted
      | Null \<Rightarrow> Inr Null
      | Given v \<Rightarrow> (case assign n v of Inl e \<Rightarrow> Inl e | Inr v' \<Rightarrow> Inr (Given v')))"

definition set_input ::
  "jsstring input_field \<Rightarrow> jsstring input_field \<Rightarrow> timestamp \<Rightarrow> User \<Rightarrow> User" where
  "set_input name_value phone_value now r =
     (let r1 = (case name_value of
                  Given n \<Rightarrow> r\<lparr>UserData.name := n\<rparr>
                | _ \<Rightarrow> r);
          r2 = (case phone_value of
                  Omitted \<Rightarrow> r1
                | Null \<Rightarrow> r1\<lparr>UserData.phone := None\<rparr>
                | Given ph \<Rightarrow> r1\<lparr>UserData.phone := Some ph\<rparr>)
      in r2\<lparr>updatedAt := now\<rparr>)"

text \<open>
  The update of \<open>updateUser\<close>. The column \<^verbatim>\<open>name\<close> is \<^verbatim>\<open>notNull()\<close>: writing
  \<^verbatim>\<open>null\<close> there is refused as soon as the statement reaches a row.
\<close>

definition update_user_row ::
  "varchar_assign \<Rightarrow> database \<Rightarrow> timestamp \<Rightarrow> UpdateUserInput \<Rightarrow> int option
     \<Rightarrow> error + database" where
  "update_user_row assign db now input n =
     (case assign_field assign 255 (UpdateUserInput.name input) of Inl e \<Rightarrow> Inl e
      | Inr name_value \<Rightarrow>
     (case assign_field assign 50 (UpdateUserInput.phone input) of Inl e \<Rightarrow> Inl e
      | Inr phone_value \<Rightarrow>
     (case select_where_id db n of Inl e \<Rightarrow> Inl e
      | Inr reached \<Rightarrow>
          if name_value = Null \<and> reached \<noteq> []
          then Inl (DatabaseError ''null value in column name violates not-null constraint'')
          else update_where_id db now (set_input name_value phone_value now) n)))"

definition updateUser ::
  "varchar_assign \<Rightarrow> timestamp \<Rightarrow> GraphQLContext \<Rightarrow> jsstring \<Rightarrow> UpdateUserInput \<Rightarrow> database
     \<Rightarrow> error + (UserData \<times> database)" where
  "updateUser assign now context arg_id input db =
     (let n = parseInt arg_id in
      case requireOwnership context arg_id of
        Inl e \<Rightarrow> Inl e
      | Inr owner \<Rightarrow>
          (case update_user_row assign db now input n of
             Inl e \<Rightarrow> Inl e
           | Inr db' \<Rightarrow>
               (case select_where_id db' n of
                  Inl e \<Rightarrow> Inl e
                | Inr users \<Rightarrow>
                    if length users = 0 then Inl (GraphQLError ''User not found'' None)
                    else Inr (omit_password (hd users), db'))))"


section \<open>Queries (\<^verbatim>\<open>userQueries\<close>)\<close>

definition users :: "GraphQLContext \<Rightarrow> database \<Rightarrow> error + UserData list" where
  "users context db =
     (case requireAuth context of
        Inl e \<Rightarrow> Inl e
      | Inr u \<Rightarrow> Inr (map omit_password (select_all db)))"

text \<open>The query \<^verbatim>\<open>user\<close>; \<^verbatim>\<open>null\<close> is \<open>None\<close>.\<close>

definition user_by_id :: "GraphQLContext \<Rightarrow> jsstring \<Rightarrow> database \<Rightarrow> error + UserData option" where
  "user_by_id context arg_id db =
     (let n = parseInt arg_id in
      case select_where_id db n of
        Inl e \<Rightarrow> Inl e
      | Inr found \<Rightarrow>
          if length found = 0 then Inr None
          else Inr (Some (omit_password (hd found))))"

definition me :: "GraphQLContext \<Rightarrow> database \<Rightarrow> error + UserData" where
  "me context db =
     (case requireAuth context of
        Inl e \<Rightarrow> Inl e
      | Inr currentUser \<Rightarrow>
          (let n = parseInt (userId currentUser) in
           case select_where_id db n of
             Inl e \<Rightarrow> Inl e
           | Inr found \<Rightarrow>
               if length found = 0 then Inl (Error ''User not found'')
               else Inr (omit_password (hd found))))"

text \<open>The payload that \<open>login\<close> signs for an account.\<close>

definition login_payload :: "User \<Rightarrow> identity" where
  "login_payload u =
     \<lparr>userId = toString (row_id u), identity.email = UserData.email u,
      identity.role = UserData.role u\<rparr>"

section \<open>A small instance for the concrete checks\<close>

text \<open>
  A stand-in for the token library (the password digest is the password behind a mark,
  the only access token that verifies is \<open>good\<close>), a database server that stores every
  string of at most the column's length which has no code unit 0 and refuses the others,
  and a table of two accounts, the second one suspended.
\<close>

definition demo_verify :: "jsstring \<Rightarrow> error + identity" where
  "demo_verify t =
     (if t = js ''good''
      then Inr \<lparr>userId = js ''1'', identity.email = js ''alice@example.com'',
                identity.role = Customer\<rparr>
      else Inl (Error ''jwt malformed''))"

definition demo_jwt :: jwt where
  "demo_jwt =
     \<lparr>hashPassword = (\<lambda>p. 35 # p),
      comparePassword = (\<lambda>p h. h = 35 # p),
      signAccessToken = (\<lambda>i. js ''access-'' @ userId i),
      signRefreshToken = (\<lambda>i. (js ''refresh-'' @ userId i, js ''jti-1'')),
      verifyAccessToken = demo_verify\<rparr>"

definition demo_assign :: varchar_assign where
  "demo_assign n s =
     (if length s \<le> n \<and> 0 \<notin> set s then Inr s
      else Inl (DatabaseError ''value refused for type character varying''))"

definition alice :: User where
  "alice =
     \<lparr>row_id = 1, UserData.email = js ''alice@example.com'', UserData.name = js ''Alice'',
      UserData.role = Customer, UserData.phone = None, isSuspend = False,
      refreshTokens = Some [js ''jti-0''], passwordResetOTP = None, otpExpiry = None,
      createdAt = 1000, updatedAt = 1000, User.password = js ''#secret''\<rparr>"

definition bob :: User where
  "bob =
     \<lparr>row_id = 2, UserData.email = js ''bob@example.com'', UserData.name = js ''Bob'',
      UserData.role = Contractor, UserData.phone = Some (js ''555''), isSuspend = True,
      refreshTokens = Some [], passwordResetOTP = None, otpExpiry = None,
      createdAt = 2000, updatedAt = 2000, User.password = js ''#hunter2''\<rparr>"

definition demo_db :: database where
  "demo_db = \<lparr>usersTable = [alice, bob], id_sequence = 3\<rparr>"

definition anonymous :: GraphQLContext where
  "anonymous = \<lparr>GraphQLContext.user = None\<rparr>"

definition alice_identity :: identity where
  "alice_identity = \<lparr>userId = js ''1'', identity.email = js ''alice@example.com'',
                      identity.role = Customer\<rparr>"

section \<open>The token service of the specification\<close>

text \<open>
  The bodies of the token functions live in \<^verbatim>\<open>src/lib/jwt.ts\<close>, which is not among the
  sources. The definitions of this section follow the specification, section 4.2. A token
  is the signed structure itself; the signing primitive is a parameter \<open>sign\<close>, which
  maps a secret and the claims to a signature.
\<close>

text \<open>Modelled from the spec: the claims of a token (section 3): an identity, the
  identifier \<open>jti\<close> (refresh tokens only), and the issued-at and expires-at timestamps.
\<close>

record claims = identity +
  jti :: "jsstring option"
  iat :: timestamp
  exp :: timestamp

text \<open>Modelled from the spec: a token, the claims with their signature.\<close>

record token =
  claims :: claims
  signature :: jsstring

text \<open>Modelled from the spec: the configuration of the token service (section 9).\<close>

record TokenConfig =
  accessSecret :: jsstring
  refreshSecret :: jsstring
  accessLifetime :: int
  refreshLifetime :: int

text \<open>Modelled from the spec: the error kinds of the token operations (section 7): a token
  that is refused, and a failure of the persistence, which propagates.
\<close>

datatype failure = InvalidToken | StoreFailure error

type_synonym signer = "jsstring \<Rightarrow> claims \<Rightarrow> jsstring"

text \<open>Modelled from the spec: the identity that a verified token decodes to.\<close>

definition identity_of :: "claims \<Rightarrow> identity" where
  "identity_of c =
     \<lparr>userId = userId c, identity.email = identity.email c, identity.role = identity.role c\<rparr>"

text \<open>Modelled from the spec: \<open>issueAccessToken\<close> of the token service (section 4.2), whose
  code is in the missing \<^verbatim>\<open>src/lib/jwt.ts\<close>: a signed token with
  \<open>exp = now + accessLifetime\<close> over the claims subject, email, role, iat and exp.
\<close>

definition issueAccessToken :: "signer \<Rightarrow> TokenConfig \<Rightarrow> timestamp \<Rightarrow> identity \<Rightarrow> token" where
  "issueAccessToken sign cfg now ident =
     (let c = \<lparr>userId = userId ident, identity.email = identity.email ident,
               identity.role = identity.role ident, jti = None, iat = now,
               exp = now + accessLifetime cfg\<rparr>
      in \<lparr>claims = c, signature = sign (accessSecret cfg) c\<rparr>)"

text \<open>Modelled from the spec: \<open>verifyAccessToken\<close> of the token service (section 4.2, code
  in the missing \<^verbatim>\<open>src/lib/jwt.ts\<close>): checks the signature against the access secret
  and \<open>exp > now\<close>, and fails with \<open>InvalidToken\<close> otherwise. The suffix keeps it apart
  from the parameter of the same name that the context calls.
\<close>

definition verifyAccessToken_spec ::
  "signer \<Rightarrow> TokenConfig \<Rightarrow> timestamp \<Rightarrow> token \<Rightarrow> failure + identity" where
  "verifyAccessToken_spec sign cfg now t =
     (if signature t = sign (accessSecret cfg) (claims t) \<and> exp (claims t) > now
      then Inr (identity_of (claims t))
      else Inl InvalidToken)"

section \<open>Refresh, logout and the session store of the specification\<close>

text \<open>
  No source file implements the refresh exchange or the logout (the documentation lists
  both as still to be written). The store of the current refresh token identifiers is in
  the sources: it is the column \<^verbatim>\<open>refreshTokens\<close> of the account's row, and \<open>login\<close>
  appends to it. The operations of this section follow the specification, sections 4.3
  and 6, on that column. They reach the row as the resolver \<open>me\<close> does, through
  \<open>parseInt\<close> of the \<open>userId\<close> of the identity. The resolvers take the tokens as
  strings, so the verification of a refresh token is a parameter like the functions of
  the token library: it refuses the string or returns the identity and the identifier.
\<close>

type_synonym refresh_verifier = "jsstring \<Rightarrow> error + identity \<times> jsstring"

text \<open>\<^verbatim>\<open>(user.refreshTokens as string[]) || []\<close>, as in \<open>login\<close>.\<close>

definition tokens_of :: "User \<Rightarrow> jsstring list" where
  "tokens_of u = (case refreshTokens u of None \<Rightarrow> [] | Some ts \<Rightarrow> ts)"

text \<open>Modelled from the spec: \<open>isActive(userId, jti)\<close> of the session store (section 4.3),
  which no source file implements: \<open>jti\<close> is in the current-token-set of the user.
\<close>

definition isActive :: "database \<Rightarrow> jsstring \<Rightarrow> jsstring \<Rightarrow> bool" where
  "isActive db uid j =
     (case select_where_id db (parseInt uid) of
        Inl e \<Rightarrow> False
      | Inr found \<Rightarrow> found \<noteq> [] \<and> j \<in> set (tokens_of (hd found)))"

text \<open>Modelled from the spec: \<open>rotate(userId, oldJti, newJti)\<close> (section 4.3), which no
  source file implements: one update that removes \<open>oldJti\<close> and adds \<open>newJti\<close>.
\<close>

definition rotate_jti ::
  "database \<Rightarrow> timestamp \<Rightarrow> jsstring \<Rightarrow> jsstring \<Rightarrow> jsstring \<Rightarrow> error + database" where
  "rotate_jti db now uid oldJti newJti =
     update_where_id db now
       (\<lambda>r. r\<lparr>refreshTokens := Some (removeAll oldJti (tokens_of r) @ [newJti])\<rparr>)
       (parseInt uid)"



text \<open>Modelled from the spec: the refresh exchange \<open>refresh(refreshToken)\<close> (sections 2 and
  6), which no source file implements: the refresh token is verified, the session store
  confirms that the embedded identifier is still current, a new pair is issued by the
  token library, and the old identifier is replaced by the new one.
\<close>

definition refresh ::
  "refresh_verifier \<Rightarrow> jwt \<Rightarrow> timestamp \<Rightarrow> jsstring \<Rightarrow> database
     \<Rightarrow> failure + ((jsstring \<times> jsstring) \<times> database)" where
  "refresh verify lib now t db =
     (case verify t of
        Inl e \<Rightarrow> Inl InvalidToken
      | Inr (ident, oldJti) \<Rightarrow>
          if \<not> isActive db (userId ident) oldJti then Inl InvalidToken
          else
            (let access = signAccessToken lib ident;
                 (rt, newJti) = signRefreshToken lib ident
             in case rotate_jti db now (userId ident) oldJti newJti of
                  Inl e \<Rightarrow> Inl (StoreFailure e)
                | Inr db' \<Rightarrow> Inr ((access, rt), db')))"








text \<open>Instances for the concrete checks.\<close>

definition demo_sign :: signer where
  "demo_sign secret c = secret @ userId c"

definition demo_cfg :: TokenConfig where
  "demo_cfg = \<lparr>accessSecret = js ''a-secret'', refreshSecret = js ''r-secret'',
                accessLifetime = 100, refreshLifetime = 1000\<rparr>"





section \<open>Auxiliary facts\<close>

lemma hd_filter_in_set: "filter P xs \<noteq> [] \<Longrightarrow> hd (filter P xs) \<in> set xs"
  by (induction xs) auto

lemma hd_filter_sat: "filter P xs \<noteq> [] \<Longrightarrow> P (hd (filter P xs))"
  by (induction xs) auto



lemma distinct_map_eq:
  "distinct (map f xs) \<Longrightarrow> x \<in> set xs \<Longrightarrow> y \<in> set xs \<Longrightarrow> f x = f y \<Longrightarrow> x = y"
  by (auto simp: distinct_map inj_on_def)

lemma select_where_id_set:
  "select_where_id db n = Inr found \<Longrightarrow> found \<noteq> [] \<Longrightarrow> hd found \<in> set (usersTable db)"
  by (auto simp: select_where_id_def hd_filter_in_set split: sum.splits)

text \<open>The lower-cased name of a value of the GraphQL enum is a label of the table's enum.\<close>

lemma lower_names:
  "toLowerCase (js ''CUSTOMER'') = js ''customer''"
  "toLowerCase (js ''CONTRACTOR'') = js ''contractor''"
  "toLowerCase (js ''ADMIN'') = js ''admin''"
  by code_simp+

lemma labels_differ:
  "js ''customer'' \<noteq> js ''contractor''" "js ''customer'' \<noteq> js ''admin''"
  "js ''contractor'' \<noteq> js ''admin''"
  by code_simp+

lemma userRoleEnum_lower:
  "\<exists>r. userRoleEnum (toLowerCase (UserRole_name g)) = Some r \<and>
       js (role_label r) = toLowerCase (UserRole_name g)"
  by (cases g) (simp_all add: lower_names labels_differ userRoleEnum_def)

text \<open>What a successful login has gone through, read off the definition.\<close>

lemma login_success:
  assumes "login lib now context input db = Inr (result, db')"
  defines "u \<equiv> hd (select_where_email db (LoginInput.email input))"
  shows "select_where_email db (LoginInput.email input) \<noteq> []"
    and "\<not> isSuspend u"
    and "comparePassword lib (LoginInput.password input) (User.password u)"
    and "result = \<lparr>accessToken = signAccessToken lib (login_payload u),
                    refreshToken = fst (signRefreshToken lib (login_payload u)),
                    AuthPayload.user = omit_password u\<rparr>"
    and "update_where_id db now
           (\<lambda>r. r\<lparr>refreshTokens :=
                    Some ((case refreshTokens u of None \<Rightarrow> [] | Some ts \<Rightarrow> ts)
                          @ [snd (signRefreshToken lib (login_payload u))])\<rparr>)
           (Some (row_id u)) = Inr db'"
  using assms(1) unfolding u_def login_payload_def
  by (auto simp: login_def Let_def split: if_splits sum.splits prod.splits)


section \<open>The guards\<close>

text \<open>
  C3. For every context and every resource owner id, \<open>requireOwnership\<close> returns the
  identity exactly when the identity's \<open>userId\<close> equals the owner id or its role is
  admin; it fails with \<open>Unauthenticated\<close> when the context holds no identity and with
  \<open>Forbidden\<close> in every other case.
\<close>

theorem requireOwnership_decision:
  "requireOwnership context ownerId =
     (case GraphQLContext.user context of
        None \<Rightarrow> Inl Unauthenticated
      | Some u \<Rightarrow>
          if userId u = ownerId \<or> identity.role u = Admin then Inr u else Inl Forbidden)"
  by (simp add: requireOwnership_def requireAuth_def split: option.split)

section \<open>Building the context\<close>

text \<open>
  C5. Request authentication never throws: for every value of the Authorization header,
  \<open>createContext\<close> returns a context. When the context holds an identity, the header
  starts with \<open>Bearer \<close> and the identity is what the verification of the token after
  the prefix returned; when it holds none, the header is absent, has another prefix, or
  carries a token whose verification fails.
\<close>

theorem createContext_never_throws:
  "\<exists>context. createContext lib authHeader = Inr context \<and>
     (case GraphQLContext.user context of
        Some ident \<Rightarrow>
          (\<exists>h. authHeader = Some h \<and> startsWith h (js ''Bearer '') \<and>
             verifyAccessToken lib (substring h 7) = Inr ident)
      | None \<Rightarrow>
          \<not> (\<exists>h decoded. authHeader = Some h \<and> startsWith h (js ''Bearer '') \<and>
               verifyAccessToken lib (substring h 7) = Inr decoded))"
proof -
  let ?ident =
    "case authHeader of
       None \<Rightarrow> None
     | Some h \<Rightarrow>
         if startsWith h (js ''Bearer '')
         then (case verifyAccessToken lib (substring h 7) of
                 Inl e \<Rightarrow> None
               | Inr decoded \<Rightarrow> Some decoded)
         else None"
  have eq: "createContext lib authHeader = Inr \<lparr>GraphQLContext.user = ?ident\<rparr>"
    by (simp add: createContext_def Let_def split: option.splits sum.splits)
  have "case ?ident of
          Some ident \<Rightarrow>
            (\<exists>h. authHeader = Some h \<and> startsWith h (js ''Bearer '') \<and>
               verifyAccessToken lib (substring h 7) = Inr ident)
        | None \<Rightarrow>
            \<not> (\<exists>h decoded. authHeader = Some h \<and> startsWith h (js ''Bearer '') \<and>
                 verifyAccessToken lib (substring h 7) = Inr decoded)"
    by (auto split: option.splits sum.splits if_splits)
  then show ?thesis
    unfolding eq by (intro exI [of _ "\<lparr>GraphQLContext.user = ?ident\<rparr>"]) simp
qed

section \<open>Login\<close>

text \<open>
  The order of the checks in \<open>login\<close>: an unknown email gives \<open>InvalidCredentials\<close>; a
  suspended account gives \<open>AccountSuspended\<close> before the password is looked at; a wrong
  password on an account that is not suspended gives \<open>InvalidCredentials\<close>.
\<close>

lemma login_unknown_email:
  "select_where_email db (LoginInput.email input) = [] \<Longrightarrow>
   login lib now context input db = Inl InvalidCredentials"
  by (simp add: login_def)

lemma login_suspended:
  "select_where_email db (LoginInput.email input) \<noteq> [] \<Longrightarrow>
   isSuspend (hd (select_where_email db (LoginInput.email input))) \<Longrightarrow>
   login lib now context input db = Inl AccountSuspended"
  by (simp add: login_def)

lemma login_wrong_password_active:
  "select_where_email db (LoginInput.email input) \<noteq> [] \<Longrightarrow>
   \<not> isSuspend (hd (select_where_email db (LoginInput.email input))) \<Longrightarrow>
   \<not> comparePassword lib (LoginInput.password input)
       (User.password (hd (select_where_email db (LoginInput.email input)))) \<Longrightarrow>
   login lib now context input db = Inl InvalidCredentials"
  by (simp add: login_def)

text \<open>
  C1. The claim: a password that does not verify against the stored hash gives
  \<open>InvalidCredentials\<close>, also on a suspended account, and \<open>AccountSuspended\<close> is raised
  only for a suspended account with a correct password. The code checks
  \<^verbatim>\<open>user.isSuspend\<close> before it compares the password: for the suspended account of
  \<open>bob\<close> and a password that does not verify, \<open>login\<close> fails with \<open>AccountSuspended\<close>.
\<close>

theorem login_suspended_wrong_password:
  "comparePassword demo_jwt (js ''wrong'') (User.password bob) = False \<and>
   login demo_jwt 5000 anonymous
     \<lparr>LoginInput.email = js ''bob@example.com'', LoginInput.password = js ''wrong''\<rparr> demo_db
   = Inl AccountSuspended"
  by code_simp

text \<open>
  C6. The claim: a login with an email that matches no account and a login with an
  existing email and a wrong password give the identical error. On the code the two
  errors differ in message and code when the existing account is suspended: the unknown
  email gives \<open>Invalid email or password\<close> with \<open>BAD_USER_INPUT\<close>, the suspended account
  gives \<open>Account is suspended\<close> with \<open>FORBIDDEN\<close>, whatever the password.
\<close>

theorem login_errors_differ:
  "login demo_jwt 5000 anonymous
     \<lparr>LoginInput.email = js ''carol@example.com'', LoginInput.password = js ''wrong''\<rparr> demo_db
   = Inl (GraphQLError ''Invalid email or password'' (Some ''BAD_USER_INPUT'')) \<and>
   login demo_jwt 5000 anonymous
     \<lparr>LoginInput.email = js ''bob@example.com'', LoginInput.password = js ''wrong''\<rparr> demo_db
   = Inl (GraphQLError ''Account is suspended'' (Some ''FORBIDDEN'')) \<and>
   login demo_jwt 5000 anonymous
     \<lparr>LoginInput.email = js ''carol@example.com'', LoginInput.password = js ''wrong''\<rparr> demo_db
   \<noteq> login demo_jwt 5000 anonymous
     \<lparr>LoginInput.email = js ''bob@example.com'', LoginInput.password = js ''wrong''\<rparr> demo_db"
  by code_simp

text \<open>
  C7, as amended. A successful login on a table whose ids are distinct replaces the row
  of the account \<open>u\<close> (the first row with the email of the input) by \<open>u\<close> with the fresh
  identifier appended to its stored identifiers and with \<open>updatedAt\<close> set to the current
  time; every other field of the row, every other row and the identity counter are as
  before.
\<close>

theorem login_appends_jti:
  assumes "login lib now context input db = Inr (result, db')"
    and "distinct (map row_id (usersTable db))"
  shows "let u = hd (select_where_email db (LoginInput.email input));
             jti = snd (signRefreshToken lib (login_payload u));
             currentTokens = (case refreshTokens u of None \<Rightarrow> [] | Some ts \<Rightarrow> ts)
         in u \<in> set (usersTable db) \<and>
            UserData.email u = LoginInput.email input \<and>
            db' = db\<lparr>usersTable :=
                    map (\<lambda>r. if r = u
                              then u\<lparr>refreshTokens := Some (currentTokens @ [jti]),
                                     updatedAt := now\<rparr>
                              else r)
                      (usersTable db)\<rparr>"
proof -
  define u where "u = hd (select_where_email db (LoginInput.email input))"
  define jti where "jti = snd (signRefreshToken lib (login_payload u))"
  define currentTokens where
    "currentTokens = (case refreshTokens u of None \<Rightarrow> [] | Some ts \<Rightarrow> ts)"
  have found: "filter (\<lambda>r. UserData.email r = LoginInput.email input) (usersTable db) \<noteq> []"
    using login_success(1) [OF assms(1)] by (simp add: select_where_email_def)
  have u_in: "u \<in> set (usersTable db)"
    unfolding u_def select_where_email_def by (rule hd_filter_in_set [OF found])
  have u_email: "UserData.email u = LoginInput.email input"
    unfolding u_def select_where_email_def by (rule hd_filter_sat [OF found])
  have upd: "update_where_id db now
               (\<lambda>r. r\<lparr>refreshTokens := Some (currentTokens @ [jti])\<rparr>)
               (Some (row_id u)) = Inr db'"
    using login_success(5) [OF assms(1)] by (simp add: u_def jti_def currentTokens_def)
  have same: "(row_id r = row_id u) = (r = u)" if "r \<in> set (usersTable db)" for r
    using distinct_map_eq [OF assms(2) that u_in] by auto
  have "db' = db\<lparr>usersTable :=
                 map (\<lambda>r. if row_id r = row_id u
                           then (onUpdate now r)\<lparr>refreshTokens := Some (currentTokens @ [jti])\<rparr>
                           else r)
                   (usersTable db)\<rparr>"
    using upd by (auto simp: update_where_id_def id_param_def split: if_splits)
  also have "map (\<lambda>r. if row_id r = row_id u
                        then (onUpdate now r)\<lparr>refreshTokens := Some (currentTokens @ [jti])\<rparr>
                        else r) (usersTable db)
           = map (\<lambda>r. if r = u
                        then u\<lparr>refreshTokens := Some (currentTokens @ [jti]), updatedAt := now\<rparr>
                        else r) (usersTable db)"
    by (rule map_cong) (auto simp: same onUpdate_def)
  finally show ?thesis
    using u_in u_email by (simp add: u_def jti_def currentTokens_def Let_def)
qed

text \<open>
  The amended C7 at a concrete login: \<open>alice\<close> logs in at time 5000 on a table with
  distinct ids.
\<close>

theorem login_appends_jti_witness:
  "distinct (map row_id (usersTable demo_db)) \<and>
   login demo_jwt 5000 anonymous
     \<lparr>LoginInput.email = js ''alice@example.com'', LoginInput.password = js ''secret''\<rparr>
     demo_db =
   Inr (\<lparr>accessToken = js ''access-1'', refreshToken = js ''refresh-1'',
         AuthPayload.user = omit_password alice\<rparr>,
        demo_db\<lparr>usersTable := [alice\<lparr>refreshTokens := Some [js ''jti-0'', js ''jti-1''],
                                      updatedAt := 5000\<rparr>, bob]\<rparr>) \<and>
   alice \<in> set (usersTable demo_db)"
proof -
  let ?input =
    "\<lparr>LoginInput.email = js ''alice@example.com'', LoginInput.password = js ''secret''\<rparr>"
  let ?result = "\<lparr>accessToken = js ''access-1'', refreshToken = js ''refresh-1'',
                  AuthPayload.user = omit_password alice\<rparr>"
  let ?db' = "demo_db\<lparr>usersTable := [alice\<lparr>refreshTokens := Some [js ''jti-0'', js ''jti-1''],
                                      updatedAt := 5000\<rparr>, bob]\<rparr>"
  have h1: "login demo_jwt 5000 anonymous ?input demo_db = Inr (?result, ?db')"
    by code_simp
  have h2: "distinct (map row_id (usersTable demo_db))"
    by (simp add: demo_db_def alice_def bob_def)
  have u: "hd (select_where_email demo_db (js ''alice@example.com'')) = alice"
    by code_simp
  show ?thesis
    using login_appends_jti [OF h1 h2] h1 h2 by (simp add: u Let_def)
qed

text \<open>
  C7 as stated fails: the login of \<open>alice\<close> at time 5000 succeeds, and the row it leaves
  is not the old row with only the identifier appended, because \<open>updatedAt\<close> has moved
  from 1000 to 5000.
\<close>

theorem login_changes_updatedAt:
  "login demo_jwt 5000 anonymous
     \<lparr>LoginInput.email = js ''alice@example.com'', LoginInput.password = js ''secret''\<rparr>
     demo_db =
   Inr (\<lparr>accessToken = js ''access-1'', refreshToken = js ''refresh-1'',
         AuthPayload.user = omit_password alice\<rparr>,
        \<lparr>usersTable = [alice\<lparr>refreshTokens := Some [js ''jti-0'', js ''jti-1''],
                             updatedAt := 5000\<rparr>, bob],
         id_sequence = 3\<rparr>) \<and>
   alice\<lparr>refreshTokens := Some [js ''jti-0'', js ''jti-1''], updatedAt := 5000\<rparr> \<noteq>
   alice\<lparr>refreshTokens := Some [js ''jti-0'', js ''jti-1'']\<rparr>"
  by code_simp

section \<open>Registration\<close>

text \<open>
  C4. \<open>register\<close> applies no authentication and no restriction on the role: for every
  context, also the anonymous one, and every input whose email is not taken, the account
  is created with the role whose label is the lower-cased role of the input, whichever of
  the three roles that is. The only other condition is that the database accepts the
  insert: it stores the four strings (as \<open>e'\<close>, \<open>pw'\<close>, \<open>n'\<close> and \<open>ph'\<close>), the identity
  counter is within the range of the column and not an id in use, and the stored email
  is new.
\<close>

theorem register_role_unrestricted:
  assumes "RegisterInput.email input \<notin> set (map UserData.email (usersTable db))"
    and "assign 255 (RegisterInput.email input) = Inr e'"
    and "assign 255 (hashPassword lib (RegisterInput.password input)) = Inr pw'"
    and "assign 255 (RegisterInput.name input) = Inr n'"
    and "assign_opt assign 50 (RegisterInput.phone input) = Inr ph'"
    and "int4 (id_sequence db)"
    and "id_sequence db \<notin> set (map row_id (usersTable db))"
    and "e' \<notin> set (map UserData.email (usersTable db))"
  shows "\<exists>r. register assign lib now context input db =
             Inr (\<lparr>success = True, message = ''User registered successfully''\<rparr>,
                  db\<lparr>usersTable := usersTable db @
                       [\<lparr>row_id = id_sequence db,
                         UserData.email = e',
                         UserData.name = n',
                         UserData.role = r,
                         UserData.phone = ph',
                         isSuspend = False, refreshTokens = Some [],
                         passwordResetOTP = None, otpExpiry = None,
                         createdAt = now, updatedAt = now,
                         User.password = pw'\<rparr>],
                     id_sequence := id_sequence db + 1\<rparr>) \<and>
           js (role_label r) = toLowerCase (UserRole_name (RegisterInput.role input))"
proof -
  obtain r where r: "userRoleEnum (toLowerCase (UserRole_name (RegisterInput.role input))) = Some r"
    and label: "js (role_label r) = toLowerCase (UserRole_name (RegisterInput.role input))"
    using userRoleEnum_lower by blast
  have none: "select_where_email db (RegisterInput.email input) = []"
    using assms(1) by (auto simp: select_where_email_def filter_empty_conv image_iff)
  have "register assign lib now context input db =
             Inr (\<lparr>success = True, message = ''User registered successfully''\<rparr>,
                  db\<lparr>usersTable := usersTable db @
                       [\<lparr>row_id = id_sequence db,
                         UserData.email = e',
                         UserData.name = n',
                         UserData.role = r,
                         UserData.phone = ph',
                         isSuspend = False, refreshTokens = Some [],
                         passwordResetOTP = None, otpExpiry = None,
                         createdAt = now, updatedAt = now,
                         User.password = pw'\<rparr>],
                     id_sequence := id_sequence db + 1\<rparr>)"
    using assms(2-8) by (simp add: register_def none insert_values_def r)
  then show ?thesis using label by blast
qed

text \<open>C4 at a concrete input: an anonymous caller registers an account with role admin.\<close>

theorem register_role_unrestricted_witness:
  "register demo_assign demo_jwt 9000 anonymous
     \<lparr>RegisterInput.email = js ''mallory@example.com'', RegisterInput.password = js ''pw'',
      RegisterInput.name = js ''Mallory'', RegisterInput.role = ADMIN,
      RegisterInput.phone = None\<rparr> demo_db =
   Inr (\<lparr>success = True, message = ''User registered successfully''\<rparr>,
        \<lparr>usersTable = [alice, bob,
            \<lparr>row_id = 3, UserData.email = js ''mallory@example.com'',
              UserData.name = js ''Mallory'', UserData.role = Admin, UserData.phone = None,
              isSuspend = False, refreshTokens = Some [], passwordResetOTP = None,
              otpExpiry = None, createdAt = 9000, updatedAt = 9000,
              User.password = js ''#pw''\<rparr>],
          id_sequence = 4\<rparr>) \<and>
   js (role_label Admin) = toLowerCase (UserRole_name ADMIN)"
proof -
  let ?input =
    "\<lparr>RegisterInput.email = js ''mallory@example.com'', RegisterInput.password = js ''pw'',
      RegisterInput.name = js ''Mallory'', RegisterInput.role = ADMIN,
      RegisterInput.phone = None\<rparr>"
  have h1: "RegisterInput.email ?input \<notin> set (map UserData.email (usersTable demo_db))"
    by code_simp
  have h2: "demo_assign 255 (RegisterInput.email ?input) = Inr (js ''mallory@example.com'')"
    by code_simp
  have h3: "demo_assign 255 (hashPassword demo_jwt (RegisterInput.password ?input)) =
              Inr (js ''#pw'')"
    by code_simp
  have h4: "demo_assign 255 (RegisterInput.name ?input) = Inr (js ''Mallory'')"
    by code_simp
  have h5: "assign_opt demo_assign 50 (RegisterInput.phone ?input) = Inr None"
    by (simp add: assign_opt_def)
  have h6: "int4 (id_sequence demo_db)"
    by (simp add: int4_def demo_db_def)
  have h7: "id_sequence demo_db \<notin> set (map row_id (usersTable demo_db))"
    by (simp add: demo_db_def alice_def bob_def)
  have h8: "js ''mallory@example.com'' \<notin> set (map UserData.email (usersTable demo_db))"
    by code_simp
  have label: "js (role_label r) = toLowerCase (UserRole_name ADMIN) \<Longrightarrow> r = Admin" for r
    by (cases r) (simp_all add: lower_names labels_differ labels_differ [symmetric])
  show ?thesis
    using register_role_unrestricted [OF h1 h2 h3 h4 h5 h6 h7 h8, of 9000 anonymous] label
    by (auto simp: demo_db_def lower_names)
qed

section \<open>Queries\<close>



section \<open>No resolver returns the password\<close>

lemma omit_password_ignores: "omit_password (u\<lparr>User.password := p\<rparr>) = omit_password u"
  by (simp add: omit_password_def)

lemma login_result_user:
  assumes "login lib now context input db = Inr (result, db')"
  shows "\<exists>u. u \<in> set (usersTable db) \<and> AuthPayload.user result = omit_password u"
proof -
  let ?u = "hd (select_where_email db (LoginInput.email input))"
  have "?u \<in> set (usersTable db)"
    using login_success(1) [OF assms] by (simp add: select_where_email_def hd_filter_in_set)
  moreover have "AuthPayload.user result = omit_password ?u"
    using login_success(4) [OF assms] by simp
  ultimately show ?thesis by blast
qed

lemma updateUser_result:
  assumes "updateUser assign now context arg_id input db = Inr (result, db')"
  shows "\<exists>u. u \<in> set (usersTable db') \<and> result = omit_password u"
  using assms
  by (auto simp: updateUser_def Let_def dest: select_where_id_set
      split: if_splits sum.splits)

lemma users_result:
  assumes "users context db = Inr result"
  shows "result = map omit_password (usersTable db)"
  using assms by (auto simp: users_def select_all_def split: sum.splits)

lemma user_by_id_result:
  assumes "user_by_id context arg_id db = Inr (Some result)"
  shows "\<exists>u. u \<in> set (usersTable db) \<and> result = omit_password u"
  using assms
  by (auto simp: user_by_id_def Let_def dest: select_where_id_set split: if_splits sum.splits)

lemma me_result:
  assumes "me context db = Inr result"
  shows "\<exists>u. u \<in> set (usersTable db) \<and> result = omit_password u"
  using assms
  by (auto simp: me_def Let_def dest: select_where_id_set split: if_splits sum.splits)

text \<open>
  C10. Every resolver that returns account data returns rows stripped of the password:
  the account in the result of \<open>login\<close>, the results of \<open>updateUser\<close>, of
  \<^verbatim>\<open>user\<close> and of \<open>me\<close> are \<open>omit_password\<close> of a stored row, and the result of
  \<open>users\<close> is \<open>omit_password\<close> of every stored row. \<open>omit_password\<close> builds an object
  without password field, and its value does not depend on the stored password.
\<close>

theorem resolvers_strip_password:
  "(\<forall>u p. omit_password (u\<lparr>User.password := p\<rparr>) = omit_password u) \<and>
   (\<forall>result db'. login lib now context login_input db = Inr (result, db') \<longrightarrow>
      (\<exists>u. u \<in> set (usersTable db) \<and> AuthPayload.user result = omit_password u)) \<and>
   (\<forall>result db'. updateUser assign now context arg_id update_input db = Inr (result, db') \<longrightarrow>
      (\<exists>u. u \<in> set (usersTable db') \<and> result = omit_password u)) \<and>
   (\<forall>result. users context db = Inr result \<longrightarrow> result = map omit_password (usersTable db)) \<and>
   (\<forall>result. user_by_id context arg_id db = Inr (Some result) \<longrightarrow>
      (\<exists>u. u \<in> set (usersTable db) \<and> result = omit_password u)) \<and>
   (\<forall>result. me context db = Inr result \<longrightarrow>
      (\<exists>u. u \<in> set (usersTable db) \<and> result = omit_password u))"
  by (intro conjI allI impI)
     (rule omit_password_ignores, erule login_result_user, erule updateUser_result,
      erule users_result, erule user_by_id_result, erule me_result)

text \<open>
  C10 at concrete calls: the login of \<open>alice\<close> and the list of all users asked by her.
\<close>

theorem resolvers_strip_password_witness:
  "(\<exists>u. u \<in> set (usersTable demo_db) \<and> omit_password alice = omit_password u) \<and>
   users \<lparr>GraphQLContext.user = Some alice_identity\<rparr> demo_db =
     Inr [omit_password alice, omit_password bob]"
proof -
  let ?input =
    "\<lparr>LoginInput.email = js ''alice@example.com'', LoginInput.password = js ''secret''\<rparr>"
  let ?ctx = "\<lparr>GraphQLContext.user = Some alice_identity\<rparr>"
  let ?result = "\<lparr>accessToken = js ''access-1'', refreshToken = js ''refresh-1'',
                  AuthPayload.user = omit_password alice\<rparr>"
  let ?db' = "demo_db\<lparr>usersTable := [alice\<lparr>refreshTokens := Some [js ''jti-0'', js ''jti-1''],
                                      updatedAt := 5000\<rparr>, bob]\<rparr>"
  have h1: "login demo_jwt 5000 ?ctx ?input demo_db = Inr (?result, ?db')"
    by code_simp
  have h2: "users ?ctx demo_db = Inr (map omit_password [alice, bob])"
    by (simp add: users_def requireAuth_def select_all_def demo_db_def)
  note T = resolvers_strip_password
    [of demo_jwt 5000 ?ctx ?input demo_db demo_assign "js ''1''"
        "\<lparr>UpdateUserInput.name = Omitted, UpdateUserInput.phone = Omitted\<rparr>"]
  have "\<exists>u. u \<in> set (usersTable demo_db) \<and> AuthPayload.user ?result = omit_password u"
    using T h1 by (elim conjE) blast
  moreover have "map omit_password [alice, bob] = map omit_password (usersTable demo_db)"
    using T h2 by (elim conjE) blast
  ultimately show ?thesis using h2 by simp
qed

section \<open>The token service\<close>

text \<open>
  C8. Access-token round trip: for every identity, verifying at time \<open>now'\<close> the access
  token issued at time \<open>now\<close> returns the identity itself while \<open>now'\<close> is before
  \<open>now + accessLifetime\<close>, and fails with \<open>InvalidToken\<close> from that time on.
\<close>

theorem access_token_round_trip:
  "verifyAccessToken_spec sign cfg now' (issueAccessToken sign cfg now ident) =
     (if now' < now + accessLifetime cfg then Inr ident else Inl InvalidToken)"
  by (simp add: verifyAccessToken_spec_def issueAccessToken_def identity_of_def Let_def)

section \<open>Refresh token identifiers\<close>


lemma refresh_inactive_fails:
  assumes "verify t = Inr (ident, j)" and "\<not> isActive db (userId ident) j"
  shows "refresh verify lib now t db = Inl InvalidToken"
  using assms by (simp add: refresh_def)

























end
